theory Spec2Isabelle
  imports Main "HOL-Library.Word"
begin

section \<open>JavaScript values as the page handles them\<close>

text \<open>
  The page (\<^verbatim>\<open>src/frontend/src/app/page.tsx\<close>) parses response bodies with
  \<^verbatim>\<open>response.json()\<close> and stores fields of the parsed value in its state without
  checking them, so those fields hold arbitrary JavaScript values at run time. Strings are
  lists of code units below 256. A number is given by the text that \<^verbatim>\<open>String\<close> prints
  for it (digits, or the exponent form from \<^verbatim>\<open>1e+21\<close> on), which tells numbers apart
  up to the sign of zero; the page does no arithmetic on a parsed number.
\<close>

datatype jsval =
    JUndefined
  | JNull
  | JBool bool
  | JNum string
  | JStr string
  | JArr "jsval list"
  | JObj "(string \<times> jsval) list"

text \<open>A value that was thrown or that a promise rejected with: \<^verbatim>\<open>err instanceof Error\<close>
  holds of the first form only, and then \<^verbatim>\<open>err.message\<close> is its message.\<close>

datatype thrown = Error string | NonError

text \<open>Truthiness, as \<^verbatim>\<open>!x\<close>, \<^verbatim>\<open>x || y\<close> and \<^verbatim>\<open>x && y\<close> test it.\<close>

fun truthy :: "jsval \<Rightarrow> bool" where
  "truthy JUndefined = False"
| "truthy JNull = False"
| "truthy (JBool b) = b"
| "truthy (JNum printed) = (printed \<noteq> ''0'' \<and> printed \<noteq> ''NaN'')"
| "truthy (JStr s) = (s \<noteq> [])"
| "truthy (JArr xs) = True"
| "truthy (JObj kvs) = True"

text \<open>Decimal digits of a number, as string concatenation and template literals print it.\<close>

definition digit :: "nat \<Rightarrow> char" where
  "digit d = char_of (48 + d)"

function show_nat :: "nat \<Rightarrow> string" where
  "show_nat n = (if n < 10 then [digit n] else show_nat (n div 10) @ [digit (n mod 10)])"
  by pat_completeness auto
termination
  by (relation "measure id") auto

declare show_nat.simps [simp del]

text \<open>The messages of the TypeErrors that the page can run into (the wording is the
  engine's): reading a property of \<^verbatim>\<open>null\<close> or \<^verbatim>\<open>undefined\<close>, and converting an
  object that has no usable \<^verbatim>\<open>toString\<close>.\<close>

definition quote :: char where
  "quote = CHR 0x27"

definition cannot_read :: "string \<Rightarrow> string \<Rightarrow> string" where
  "cannot_read what key =
     ''Cannot read properties of '' @ what @ '' (reading '' @ [quote] @ key @ [quote] @ '')''"

definition cannot_convert :: string where
  "cannot_convert = ''Cannot convert object to primitive value''"

text \<open>\<^verbatim>\<open>Array.prototype.join\<close> on the converted elements: the first element that cannot
  be converted throws.\<close>

fun join_comma :: "(thrown + string) list \<Rightarrow> thrown + string" where
  "join_comma [] = Inr []"
| "join_comma [r] = r"
| "join_comma (r # rs) =
     (case r of
        Inl e \<Rightarrow> Inl e
      | Inr x \<Rightarrow> (case join_comma rs of Inl e \<Rightarrow> Inl e | Inr y \<Rightarrow> Inr (x @ '','' @ y)))"

text \<open>\<^verbatim>\<open>String(x)\<close>, which \<^verbatim>\<open>new Error(x)\<close> and a template literal apply to \<^verbatim>\<open>x\<close>.
  An array prints its elements joined by commas, with \<^verbatim>\<open>null\<close> and \<^verbatim>\<open>undefined\<close>
  elements empty. An object parsed from JSON prints as \<^verbatim>\<open>[object Object]\<close> unless it
  has a key \<^verbatim>\<open>toString\<close> of its own: that key's value is never a function, the
  inherited \<^verbatim>\<open>valueOf\<close> gives the object back, and the conversion throws a TypeError.\<close>

fun to_string :: "jsval \<Rightarrow> thrown + string" where
  "to_string JUndefined = Inr ''undefined''"
| "to_string JNull = Inr ''null''"
| "to_string (JBool b) = Inr (if b then ''true'' else ''false'')"
| "to_string (JNum printed) = Inr printed"
| "to_string (JStr s) = Inr s"
| "to_string (JArr xs) =
     join_comma (map (\<lambda>x. if x = JUndefined \<or> x = JNull then Inr [] else to_string x) xs)"
| "to_string (JObj kvs) =
     (if ''toString'' \<in> set (map fst kvs) then Inl (Error cannot_convert)
      else Inr ''[object Object]'')"

text \<open>\<^verbatim>\<open>x.key\<close> for a key that no prototype defines (the page reads
  \<^verbatim>\<open>description\<close>, \<^verbatim>\<open>answer\<close> and \<^verbatim>\<open>pdf_id\<close>): an object parsed from JSON
  keeps the last of repeated keys, every other value but \<^verbatim>\<open>null\<close> and
  \<^verbatim>\<open>undefined\<close> answers \<^verbatim>\<open>undefined\<close>.\<close>

fun get_prop :: "jsval \<Rightarrow> string \<Rightarrow> thrown + jsval" where
  "get_prop JUndefined key = Inl (Error (cannot_read ''undefined'' key))"
| "get_prop JNull key = Inl (Error (cannot_read ''null'' key))"
| "get_prop (JObj kvs) key =
     (case map_of (rev kvs) key of None \<Rightarrow> Inr JUndefined | Some v \<Rightarrow> Inr v)"
| "get_prop (JBool b) key = Inr JUndefined"
| "get_prop (JNum n) key = Inr JUndefined"
| "get_prop (JStr s) key = Inr JUndefined"
| "get_prop (JArr xs) key = Inr JUndefined"

text \<open>\<^verbatim>\<open>String.prototype.trim\<close>: white space and line terminators are removed at both
  ends (of the code units below 256: tab, line feed, vertical tab, form feed, carriage
  return, space and no-break space).\<close>

definition is_white_space :: "char \<Rightarrow> bool" where
  "is_white_space c = (of_char c \<in> {9, 10, 11, 12, 13, 32, 160 :: nat})"

definition trim :: "string \<Rightarrow> string" where
  "trim s = rev (dropWhile is_white_space (rev (dropWhile is_white_space s)))"

section \<open>The state of the page\<close>

text \<open>A file chosen in the file input: its name, its declared content type and its bytes.\<close>

record File =
  file_name :: string
  file_type :: string
  file_bytes :: "8 word list"

datatype Sender = User | Ai

text \<open>A transcript entry. The field \<^verbatim>\<open>text\<close> is \<open>msg_text\<close> here; an answer is stored
  as the response gave it, whatever its type.\<close>

record ChatMessage =
  sender :: Sender
  msg_text :: jsval

text \<open>The body of the chat request, before \<^verbatim>\<open>JSON.stringify\<close>.\<close>

record ChatRequest =
  pdf_id :: jsval
  query :: string

text \<open>
  The state hooks of \<^verbatim>\<open>Home\<close>, followed by what the page has done to the outside:
  the upload and chat requests that \<^verbatim>\<open>fetch\<close> has sent and that have not settled
  yet, and the alerts shown. Console output is left out.
\<close>

record state =
  selectedFile :: "File option"
  pdfId :: jsval
  uploading :: bool
  error :: "string option"
  numPages :: "int option"
  currentPage :: int
  chatMessages :: "ChatMessage list"
  chatInput :: string
  isSending :: bool
  upload_pending :: "File list"
  chat_pending :: "ChatRequest list"
  alerts :: "string list"

definition initial_state :: state where
  "initial_state =
     \<lparr>selectedFile = None, pdfId = JNull, uploading = False, error = None,
      numPages = None, currentPage = 1, chatMessages = [], chatInput = [],
      isSending = False, upload_pending = [], chat_pending = [], alerts = []\<rparr>"

section \<open>Responses\<close>

text \<open>What \<^verbatim>\<open>response.json()\<close> settles with: the parsed value, or a rejection.\<close>

datatype body = JsonBody jsval | BadBody thrown

record response =
  status :: nat
  json :: body

text \<open>\<^verbatim>\<open>response.ok\<close> is true for the statuses 200 to 299.\<close>

definition ok :: "response \<Rightarrow> bool" where
  "ok r = (200 \<le> status r \<and> status r \<le> 299)"

text \<open>What the awaited \<^verbatim>\<open>fetch\<close> settles with.\<close>

datatype fetch_outcome = Rejected thrown | Resolved response

section \<open>Uploading\<close>

text \<open>
  \<^verbatim>\<open>handleUpload\<close> up to its awaited \<^verbatim>\<open>fetch\<close>: without a file it only reports;
  otherwise it sets the uploading flag, clears the error and the document identifier, and
  sends the request.
\<close>

definition handleUpload :: "File option \<Rightarrow> state \<Rightarrow> state" where
  "handleUpload fileToUpload s =
     (case fileToUpload of
        None \<Rightarrow> s\<lparr>error := Some ''No file selected.''\<rparr>
      | Some f \<Rightarrow>
          s\<lparr>uploading := True, error := None, pdfId := JNull,
            upload_pending := upload_pending s @ [f]\<rparr>)"

text \<open>\<^verbatim>\<open>throw new Error(x)\<close>: the Error whose message is \<^verbatim>\<open>String(x)\<close>, or the
  TypeError of a conversion that fails.\<close>

definition throw_new_Error :: "jsval \<Rightarrow> thrown" where
  "throw_new_Error x = (case to_string x of Inl e \<Rightarrow> e | Inr message \<Rightarrow> Error message)"

text \<open>
  The \<^verbatim>\<open>try\<close> block from the settled \<^verbatim>\<open>fetch\<close> up to the first state update:
  the value of \<^verbatim>\<open>result.pdf_id\<close>, or what was thrown on the way. A response that is
  not OK throws an Error whose message is the body's \<^verbatim>\<open>description\<close> when that is
  truthy; the body that cannot be parsed is replaced by an object whose description names
  the status.
\<close>

definition handleUpload_try :: "fetch_outcome \<Rightarrow> thrown + jsval" where
  "handleUpload_try outcome =
     (case outcome of
        Rejected e \<Rightarrow> Inl e
      | Resolved r \<Rightarrow>
          if \<not> ok r then
            (let errorData =
               (case json r of
                  JsonBody d \<Rightarrow> d
                | BadBody e \<Rightarrow>
                    JObj [(''description'',
                           JStr (''Upload failed with status: '' @ show_nat (status r)))])
             in case get_prop errorData ''description'' of
                  Inl e \<Rightarrow> Inl e
                | Inr d \<Rightarrow>
                    Inl (throw_new_Error (if truthy d then d else JStr ''Failed to upload PDF.'')))
          else
            (case json r of
               BadBody e \<Rightarrow> Inl e
             | JsonBody result \<Rightarrow> get_prop result ''pdf_id''))"

text \<open>The \<^verbatim>\<open>catch\<close> block of \<^verbatim>\<open>handleUpload\<close>.\<close>

definition handleUpload_catch :: "thrown \<Rightarrow> state \<Rightarrow> state" where
  "handleUpload_catch err s =
     (let errorMessage =
        (case err of
           Error m \<Rightarrow> m
         | NonError \<Rightarrow> ''An unknown error occurred during upload.'')
      in s\<lparr>error := Some errorMessage,
           alerts := alerts s @ [''Upload failed: '' @ errorMessage]\<rparr>)"

text \<open>
  \<^verbatim>\<open>handleUpload\<close> from the settled \<^verbatim>\<open>fetch\<close> to its end. All its state updates
  come after the last \<^verbatim>\<open>await\<close> and none reads the state, so they are one step. On
  success the six updates are made and then the alert is built, still inside the
  \<^verbatim>\<open>try\<close> block: when \<^verbatim>\<open>pdf_id\<close> cannot be converted to a string, the
  \<^verbatim>\<open>catch\<close> block runs on the updated state.
\<close>

definition handleUpload_settled :: "fetch_outcome \<Rightarrow> state \<Rightarrow> state" where
  "handleUpload_settled outcome s =
     (let s' =
        (case handleUpload_try outcome of
           Inr new_id \<Rightarrow>
             (let updated =
                s\<lparr>pdfId := new_id, selectedFile := None, currentPage := 1, numPages := None,
                  chatMessages := [], error := None\<rparr>
              in case to_string new_id of
                   Inr shown \<Rightarrow>
                     updated\<lparr>alerts := alerts s @
                       [''PDF '' @ [quote] @ shown @ [quote] @ '' uploaded successfully!'']\<rparr>
                 | Inl err \<Rightarrow> handleUpload_catch err updated)
         | Inl err \<Rightarrow> handleUpload_catch err s)
      in s'\<lparr>uploading := False\<rparr>)"

text \<open>\<^verbatim>\<open>handleFileChange\<close>, with the first file of the input's list, if any.\<close>

definition handleFileChange :: "File option \<Rightarrow> state \<Rightarrow> state" where
  "handleFileChange file s =
     (case file of
        Some f \<Rightarrow>
          if file_type f = ''application/pdf'' then
            handleUpload (Some f) (s\<lparr>selectedFile := Some f, error := None\<rparr>)
          else
            s\<lparr>selectedFile := None, error := Some ''Please select a valid PDF file.'',
              alerts := alerts s @ [''Please select a valid PDF file.'']\<rparr>
      | None \<Rightarrow>
          s\<lparr>selectedFile := None, error := Some ''Please select a valid PDF file.'',
            alerts := alerts s @ [''Please select a valid PDF file.'']\<rparr>)"

section \<open>The viewer\<close>

definition onDocumentLoadSuccess :: "int \<Rightarrow> state \<Rightarrow> state" where
  "onDocumentLoadSuccess nextNumPages s = s\<lparr>numPages := Some nextNumPages\<rparr>"

text \<open>The handler that the \<^verbatim>\<open>Document\<close> element is given for a load error.\<close>

definition onLoadError :: "string \<Rightarrow> state \<Rightarrow> state" where
  "onLoadError message s = s\<lparr>error := Some (''Failed to load PDF: '' @ message)\<rparr>"

definition goToPrevPage :: "state \<Rightarrow> state" where
  "goToPrevPage s =
     s\<lparr>currentPage := (if currentPage s > 1 then currentPage s - 1 else currentPage s)\<rparr>"

definition goToNextPage :: "state \<Rightarrow> state" where
  "goToNextPage s =
     s\<lparr>currentPage :=
         (if (case numPages s of None \<Rightarrow> False | Some n \<Rightarrow> n \<noteq> 0 \<and> currentPage s < n)
          then currentPage s + 1 else currentPage s)\<rparr>"

section \<open>Chatting\<close>

text \<open>
  \<^verbatim>\<open>handleSendMessage\<close> up to its awaited \<^verbatim>\<open>fetch\<close>: nothing happens when the
  trimmed input is empty, no document is selected or a send is pending; otherwise the
  user's message is appended, the input cleared, the flag set and the request sent.
\<close>

definition handleSendMessage :: "state \<Rightarrow> state" where
  "handleSendMessage s =
     (if trim (chatInput s) = [] \<or> \<not> truthy (pdfId s) \<or> isSending s then s
      else
        (let userMessage = \<lparr>sender = User, msg_text = JStr (chatInput s)\<rparr>
         in s\<lparr>chatMessages := chatMessages s @ [userMessage], chatInput := [],
              isSending := True, error := None,
              chat_pending := chat_pending s @
                [\<lparr>pdf_id = pdfId s, query = chatInput s\<rparr>]\<rparr>))"

text \<open>The rest of its \<^verbatim>\<open>try\<close> block: the value of \<^verbatim>\<open>result.answer\<close>, or what was
  thrown on the way.\<close>

definition handleSendMessage_try :: "fetch_outcome \<Rightarrow> thrown + jsval" where
  "handleSendMessage_try outcome =
     (case outcome of
        Rejected e \<Rightarrow> Inl e
      | Resolved r \<Rightarrow>
          if \<not> ok r then
            (case json r of
               BadBody e \<Rightarrow> Inl e
             | JsonBody errorData \<Rightarrow>
                 (case get_prop errorData ''description'' of
                    Inl e \<Rightarrow> Inl e
                  | Inr d \<Rightarrow>
                      Inl (throw_new_Error
                        (if truthy d then d
                         else JStr (''HTTP error! status: '' @ show_nat (status r))))))
          else
            (case json r of
               BadBody e \<Rightarrow> Inl e
             | JsonBody result \<Rightarrow> get_prop result ''answer''))"

text \<open>\<^verbatim>\<open>handleSendMessage\<close> from the settled \<^verbatim>\<open>fetch\<close> to its end; the transcript is
  extended by an updater function, so the message lands on the transcript of that moment.\<close>

definition handleSendMessage_settled :: "fetch_outcome \<Rightarrow> state \<Rightarrow> state" where
  "handleSendMessage_settled outcome s =
     (let s' =
        (case handleSendMessage_try outcome of
           Inr answer \<Rightarrow>
             s\<lparr>chatMessages := chatMessages s @ [\<lparr>sender = Ai, msg_text = answer\<rparr>]\<rparr>
         | Inl err \<Rightarrow>
             (let errorMessage =
                (case err of Error m \<Rightarrow> m | NonError \<Rightarrow> ''An unknown error occurred.'')
              in s\<lparr>chatMessages := chatMessages s @
                     [\<lparr>sender = Ai,
                       msg_text = JStr (''Sorry, I encountered an error: '' @ errorMessage)\<rparr>],
                   error := Some (''Chat failed: '' @ errorMessage)\<rparr>))
      in s'\<lparr>isSending := False\<rparr>)"

section \<open>The page as a transition system\<close>

text \<open>
  What can happen to the page: the user picks a file, edits the question, submits it or
  turns a page; the viewer reports a loaded document or a failure; a pending upload or
  chat request (given by its position among the pending ones) settles. Every handler
  runs on the state of the latest render, and the state updates of one handler run (up
  to its \<^verbatim>\<open>await\<close>, or from the settled request to its end) take effect together
  before the next event is handled.
\<close>

datatype event =
    FileChange "File option"
  | UploadSettled nat fetch_outcome
  | DocumentLoaded int
  | DocumentLoadFailed string
  | PrevPage
  | NextPage
  | ChatInputChange string
  | SendMessage
  | ChatSettled nat fetch_outcome

definition remove_nth :: "nat \<Rightarrow> 'a list \<Rightarrow> 'a list" where
  "remove_nth i xs = take i xs @ drop (Suc i) xs"

text \<open>One event; \<open>None\<close> when a request is said to settle that is not pending.\<close>

fun step :: "event \<Rightarrow> state \<Rightarrow> state option" where
  "step (FileChange file) s = Some (handleFileChange file s)"
| "step (UploadSettled i outcome) s =
     (if i < length (upload_pending s)
      then Some (handleUpload_settled outcome
                   (s\<lparr>upload_pending := remove_nth i (upload_pending s)\<rparr>))
      else None)"
| "step (DocumentLoaded n) s = Some (onDocumentLoadSuccess n s)"
| "step (DocumentLoadFailed message) s = Some (onLoadError message s)"
| "step PrevPage s = Some (goToPrevPage s)"
| "step NextPage s = Some (goToNextPage s)"
| "step (ChatInputChange v) s = Some (s\<lparr>chatInput := v\<rparr>)"
| "step SendMessage s = Some (handleSendMessage s)"
| "step (ChatSettled i outcome) s =
     (if i < length (chat_pending s)
      then Some (handleSendMessage_settled outcome
                   (s\<lparr>chat_pending := remove_nth i (chat_pending s)\<rparr>))
      else None)"

fun run :: "event list \<Rightarrow> state \<Rightarrow> state option" where
  "run [] s = Some s"
| "run (e # es) s = (case step e s of None \<Rightarrow> None | Some s' \<Rightarrow> run es s')"

text \<open>Page turns alone, for the claim about them.\<close>

datatype page_op = Prev | Next

fun turn :: "page_op \<Rightarrow> state \<Rightarrow> state" where
  "turn Prev s = goToPrevPage s"
| "turn Next s = goToNextPage s"

definition turn_all :: "page_op list \<Rightarrow> state \<Rightarrow> state" where
  "turn_all ops s = foldl (\<lambda>t p. turn p t) s ops"

text \<open>The current page is at least 1 and, when the page count is known, at most it.\<close>

definition page_in_bounds :: "state \<Rightarrow> bool" where
  "page_in_bounds s =
     (1 \<le> currentPage s \<and> (case numPages s of None \<Rightarrow> True | Some n \<Rightarrow> currentPage s \<le> n))"

section \<open>The chunker\<close>

text \<open>
  Modelled from the spec: the chunker (section 4.2) belongs to the backend, which is not
  among the sources. The window has \<open>chunk_size\<close> characters and advances by
  \<open>chunk_size - overlap\<close>; it stops once it has reached the end of the text, so that only
  the final chunk may be shorter. Spans are half-open offsets into the concatenated page
  texts.
\<close>

datatype chunk_error = InvalidConfiguration

record Chunk =
  chunk_text :: string
  span_start :: nat
  span_end :: nat

text \<open>Modelled from the spec: the spans of the sliding window over a text of length \<open>L\<close>,
  from offset \<open>start\<close> on (the backend's chunker is not among the sources).\<close>

function windows :: "nat \<Rightarrow> nat \<Rightarrow> nat \<Rightarrow> nat \<Rightarrow> (nat \<times> nat) list" where
  "windows L chunk_size overlap start =
     (if start < L \<and> overlap < chunk_size then
        (start, min (start + chunk_size) L) #
          (if start + chunk_size < L
           then windows L chunk_size overlap (start + (chunk_size - overlap))
           else [])
      else [])"
  by pat_completeness auto
termination
  by (relation "measure (\<lambda>(L, chunk_size, overlap, start). L - start)") auto

declare windows.simps [simp del]

text \<open>Modelled from the spec: \<open>chunk(ordered pages, chunk_size, overlap)\<close> of the backend,
  which is not among the sources. The invariant \<open>0 \<le> overlap < chunk_size\<close> is checked
  first; the page texts are concatenated in order; no text gives no chunks.\<close>

definition chunk :: "(nat \<times> string) list \<Rightarrow> nat \<Rightarrow> nat \<Rightarrow> chunk_error + Chunk list" where
  "chunk pages chunk_size overlap =
     (if \<not> overlap < chunk_size then Inl InvalidConfiguration
      else
        (let text = concat (map snd pages)
         in Inr (map (\<lambda>(a, b). \<lparr>chunk_text = take (b - a) (drop a text),
                                span_start = a, span_end = b\<rparr>)
                   (windows (length text) chunk_size overlap 0))))"

section \<open>Chat turns\<close>

lemma failed_chat_try:
  "\<forall>r. outcome = Resolved r \<longrightarrow> \<not> ok r \<Longrightarrow> \<exists>e. handleSendMessage_try outcome = Inl e"
  by (auto simp: handleSendMessage_try_def split: fetch_outcome.splits body.splits sum.splits)

text \<open>
  C1. A chat turn whose request fails (\<^verbatim>\<open>fetch\<close> rejects) or whose response is not OK
  ends with one error message of the assistant appended to the transcript and the error
  shown; the document identifier, the page count and the current page are as before; the
  sending flag is cleared, so that the next question \<open>q\<close> (non-empty after trimming, with a
  document selected) is sent.
\<close>

theorem chat_failure_is_per_turn:
  assumes "\<forall>r. outcome = Resolved r \<longrightarrow> \<not> ok r"
  shows "(\<exists>m. handleSendMessage_settled outcome s =
            s\<lparr>chatMessages := chatMessages s @
                [\<lparr>sender = Ai, msg_text = JStr (''Sorry, I encountered an error: '' @ m)\<rparr>],
              error := Some (''Chat failed: '' @ m), isSending := False\<rparr>) \<and>
         pdfId (handleSendMessage_settled outcome s) = pdfId s \<and>
         numPages (handleSendMessage_settled outcome s) = numPages s \<and>
         currentPage (handleSendMessage_settled outcome s) = currentPage s \<and>
         \<not> isSending (handleSendMessage_settled outcome s) \<and>
         (truthy (pdfId s) \<and> trim q \<noteq> [] \<longrightarrow>
            chat_pending (handleSendMessage (handleSendMessage_settled outcome s\<lparr>chatInput := q\<rparr>)) =
              chat_pending s @ [\<lparr>pdf_id = pdfId s, query = q\<rparr>])"
proof -
  obtain e where e: "handleSendMessage_try outcome = Inl e"
    using failed_chat_try [OF assms] by blast
  define m where "m = (case e of Error t \<Rightarrow> t | NonError \<Rightarrow> ''An unknown error occurred.'')"
  have eq: "handleSendMessage_settled outcome s =
            s\<lparr>chatMessages := chatMessages s @
                [\<lparr>sender = Ai, msg_text = JStr (''Sorry, I encountered an error: '' @ m)\<rparr>],
              error := Some (''Chat failed: '' @ m), isSending := False\<rparr>"
    by (simp add: handleSendMessage_settled_def e m_def Let_def)
  show ?thesis
    unfolding eq by (auto simp: handleSendMessage_def Let_def)
qed

theorem chat_failure_is_per_turn_witness:
  "\<not> ok \<lparr>status = 500, json = JsonBody (JObj [(''description'', JStr ''GenerationFailed'')])\<rparr> \<and>
   handleSendMessage_settled
     (Resolved \<lparr>status = 500, json = JsonBody (JObj [(''description'', JStr ''GenerationFailed'')])\<rparr>)
     (initial_state\<lparr>pdfId := JStr ''a.pdf'', isSending := True\<rparr>) =
   initial_state\<lparr>pdfId := JStr ''a.pdf'',
     chatMessages := [\<lparr>sender = Ai, msg_text = JStr ''Sorry, I encountered an error: GenerationFailed''\<rparr>],
     error := Some ''Chat failed: GenerationFailed'', isSending := False\<rparr>"
  using chat_failure_is_per_turn [of "Resolved \<lparr>status = 500, json = JsonBody (JObj [(''description'', JStr ''GenerationFailed'')])\<rparr>"
      "initial_state\<lparr>pdfId := JStr ''a.pdf'', isSending := True\<rparr>" "''why?''"]
  by (simp add: ok_def handleSendMessage_settled_def handleSendMessage_try_def
      throw_new_Error_def initial_state_def Let_def)

text \<open>
  C4, as amended. A chat turn whose response is OK appends exactly one message, of the
  assistant, to the transcript. When the response body is JSON and \<^verbatim>\<open>answer\<close> can be
  read from it, the text of that message is the value read and nothing but the transcript
  and the sending flag changes; when the body cannot be parsed, or is \<^verbatim>\<open>null\<close>, the
  message reports that error instead.
\<close>

theorem chat_ok_appends_answer:
  "(ok r \<longrightarrow>
      (\<exists>m. chatMessages (handleSendMessage_settled (Resolved r) s) = chatMessages s @ [m] \<and>
            sender m = Ai)) \<and>
   (ok r \<and> json r = JsonBody result \<and> get_prop result ''answer'' = Inr answer \<longrightarrow>
      handleSendMessage_settled (Resolved r) s =
        s\<lparr>chatMessages := chatMessages s @ [\<lparr>sender = Ai, msg_text = answer\<rparr>],
          isSending := False\<rparr>) \<and>
   (ok r \<and> (json r = BadBody e \<or>
            (json r = JsonBody result \<and> get_prop result ''answer'' = Inl e)) \<longrightarrow>
      (\<exists>t. chatMessages (handleSendMessage_settled (Resolved r) s) =
             chatMessages s @
               [\<lparr>sender = Ai, msg_text = JStr (''Sorry, I encountered an error: '' @ t)\<rparr>]))"
  by (auto simp: handleSendMessage_settled_def handleSendMessage_try_def Let_def
      split: body.splits sum.splits thrown.splits)

theorem chat_ok_appends_answer_witness:
  "ok \<lparr>status = 200, json = JsonBody (JObj [(''answer'', JStr ''Page 2.'')])\<rparr> \<and>
   get_prop (JObj [(''answer'', JStr ''Page 2.'')]) ''answer'' = Inr (JStr ''Page 2.'') \<and>
   handleSendMessage_settled
     (Resolved \<lparr>status = 200, json = JsonBody (JObj [(''answer'', JStr ''Page 2.'')])\<rparr>)
     (initial_state\<lparr>pdfId := JStr ''a.pdf'', isSending := True,
        chatMessages := [\<lparr>sender = User, msg_text = JStr ''where?''\<rparr>]\<rparr>) =
   initial_state\<lparr>pdfId := JStr ''a.pdf'', isSending := False,
        chatMessages := [\<lparr>sender = User, msg_text = JStr ''where?''\<rparr>,
                         \<lparr>sender = Ai, msg_text = JStr ''Page 2.''\<rparr>]\<rparr>"
  using chat_ok_appends_answer [of "\<lparr>status = 200, json = JsonBody (JObj [(''answer'', JStr ''Page 2.'')])\<rparr>"
      "initial_state\<lparr>pdfId := JStr ''a.pdf'', isSending := True,
        chatMessages := [\<lparr>sender = User, msg_text = JStr ''where?''\<rparr>]\<rparr>"
      "JObj [(''answer'', JStr ''Page 2.'')]" "JStr ''Page 2.''" "Error ''x''"]
  by (simp add: ok_def initial_state_def)

text \<open>
  The claim as the spec has it fails: a response with status 200 and an empty body is OK,
  has no JSON body to read \<^verbatim>\<open>answer\<close> from, and the message appended for it is the
  report of the parse error.
\<close>

theorem chat_ok_unreadable_counterexample:
  "ok \<lparr>status = 200, json = BadBody (Error ''Unexpected end of JSON input'')\<rparr> \<and>
   \<not> (\<exists>result. json \<lparr>status = 200, json = BadBody (Error ''Unexpected end of JSON input'')\<rparr> =
                  JsonBody result) \<and>
   chatMessages (handleSendMessage_settled
     (Resolved \<lparr>status = 200, json = BadBody (Error ''Unexpected end of JSON input'')\<rparr>)
     (initial_state\<lparr>pdfId := JStr ''a.pdf'', isSending := True,
        chat_pending := [],
        chatMessages := [\<lparr>sender = User, msg_text = JStr ''where?''\<rparr>]\<rparr>)) =
     [\<lparr>sender = User, msg_text = JStr ''where?''\<rparr>,
      \<lparr>sender = Ai,
        msg_text = JStr ''Sorry, I encountered an error: Unexpected end of JSON input''\<rparr>]"
  by (simp add: ok_def handleSendMessage_settled_def handleSendMessage_try_def
      initial_state_def Let_def)

text \<open>
  C3. A submission whose question is empty after trimming changes nothing, the transcript
  included; a submission that sends a request had a question that is non-empty after
  trimming and a document selected; and such a submission, when no send is pending, sends the
  question as typed and appends it to the transcript.
\<close>

theorem empty_question_not_sent:
  "(trim (chatInput s) = [] \<longrightarrow> handleSendMessage s = s) \<and>
   (chat_pending (handleSendMessage s) \<noteq> chat_pending s \<longrightarrow>
      trim (chatInput s) \<noteq> [] \<and> truthy (pdfId s)) \<and>
   (trim (chatInput s) \<noteq> [] \<and> truthy (pdfId s) \<and> \<not> isSending s \<longrightarrow>
      chat_pending (handleSendMessage s) =
        chat_pending s @ [\<lparr>pdf_id = pdfId s, query = chatInput s\<rparr>] \<and>
      chatMessages (handleSendMessage s) =
        chatMessages s @ [\<lparr>sender = User, msg_text = JStr (chatInput s)\<rparr>])"
  by (simp add: handleSendMessage_def Let_def)

lemma trim_blank: "trim [CHR '' '', CHR 0x09, CHR 0x0A] = []"
  by (simp add: trim_def is_white_space_def)

lemma trim_question: "trim '' why? '' = ''why?''"
  by (simp add: trim_def is_white_space_def)

theorem empty_question_not_sent_witness:
  "trim [CHR '' '', CHR 0x09, CHR 0x0A] = [] \<and>
   handleSendMessage (initial_state\<lparr>pdfId := JStr ''a.pdf'', chatInput := [CHR '' '', CHR 0x09, CHR 0x0A]\<rparr>) =
     initial_state\<lparr>pdfId := JStr ''a.pdf'', chatInput := [CHR '' '', CHR 0x09, CHR 0x0A]\<rparr> \<and>
   trim '' why? '' = ''why?'' \<and>
   chat_pending (handleSendMessage (initial_state\<lparr>pdfId := JStr ''a.pdf'', chatInput := '' why? ''\<rparr>)) =
     [\<lparr>pdf_id = JStr ''a.pdf'', query = '' why? ''\<rparr>]"
  using empty_question_not_sent [of "initial_state\<lparr>pdfId := JStr ''a.pdf'', chatInput := [CHR '' '', CHR 0x09, CHR 0x0A]\<rparr>"]
    empty_question_not_sent [of "initial_state\<lparr>pdfId := JStr ''a.pdf'', chatInput := '' why? ''\<rparr>"]
  by (simp add: trim_blank trim_question initial_state_def)

section \<open>One chat request at a time\<close>

lemma step_one_chat:
  assumes "length (chat_pending s) = (if isSending s then 1 else 0)"
    and "step e s = Some s'"
  shows "length (chat_pending s') = (if isSending s' then 1 else 0)"
proof (cases e)
  case (ChatSettled i outcome)
  with assms(2) have i: "i < length (chat_pending s)"
    and s': "s' = handleSendMessage_settled outcome (s\<lparr>chat_pending := remove_nth i (chat_pending s)\<rparr>)"
    by (auto split: if_splits)
  from i assms(1) have "length (chat_pending s) = 1" "i = 0"
    by (auto split: if_splits)
  then have "remove_nth i (chat_pending s) = []"
    by (cases "chat_pending s") (simp_all add: remove_nth_def)
  then show ?thesis
    unfolding s' by (simp add: handleSendMessage_settled_def Let_def split: sum.splits)
next
  case SendMessage
  with assms show ?thesis
    by (auto simp: handleSendMessage_def Let_def split: if_splits)
next
  case (FileChange f)
  with assms show ?thesis
    by (auto simp: handleFileChange_def handleUpload_def split: option.splits if_splits)
next
  case (UploadSettled i outcome)
  with assms show ?thesis
    by (auto simp: handleUpload_settled_def handleUpload_catch_def Let_def
        split: sum.splits if_splits)
qed (insert assms, auto simp: onDocumentLoadSuccess_def onLoadError_def goToPrevPage_def
      goToNextPage_def split: if_splits)

lemma run_one_chat:
  "length (chat_pending s) = (if isSending s then 1 else 0) \<Longrightarrow> run evs s = Some s' \<Longrightarrow>
   length (chat_pending s') = (if isSending s' then 1 else 0)"
proof (induction evs arbitrary: s)
  case Nil
  then show ?case by simp
next
  case (Cons e evs)
  from Cons.prems(2) obtain u where u: "step e s = Some u" "run evs u = Some s'"
    by (auto split: option.splits)
  from step_one_chat [OF Cons.prems(1) u(1)] Cons.IH u(2) show ?case by blast
qed

lemma step_keeps_sending:
  assumes "isSending s" and "step e s = Some s'" and "\<not> isSending s'"
  shows "\<exists>i outcome. e = ChatSettled i outcome"
proof (cases e)
  case (ChatSettled i outcome)
  then show ?thesis by blast
next
  case SendMessage
  with assms show ?thesis
    by (auto simp: handleSendMessage_def Let_def split: if_splits)
next
  case (FileChange f)
  with assms show ?thesis
    by (auto simp: handleFileChange_def handleUpload_def split: option.splits if_splits)
next
  case (UploadSettled i outcome)
  with assms show ?thesis
    by (auto simp: handleUpload_settled_def handleUpload_catch_def Let_def
        split: sum.splits if_splits)
qed (insert assms, auto simp: onDocumentLoadSuccess_def onLoadError_def goToPrevPage_def
      goToNextPage_def split: if_splits)

text \<open>
  C10. In every state the page reaches from its initial state, the number of chat requests
  in flight is one while the sending flag is set and none otherwise. While the flag is
  set a submission changes nothing (no request, no transcript entry); an event that finds
  the flag set and leaves it cleared is the settling of the pending chat request; and
  that settling, completed or failed, clears the flag.
\<close>

theorem one_chat_in_flight:
  "(run evs initial_state = Some s \<longrightarrow>
      length (chat_pending s) = (if isSending s then 1 else 0)) \<and>
   (isSending t \<longrightarrow> handleSendMessage t = t) \<and>
   (isSending t \<and> step e t = Some t' \<and> \<not> isSending t' \<longrightarrow>
      (\<exists>i outcome. e = ChatSettled i outcome)) \<and>
   \<not> isSending (handleSendMessage_settled outcome t)"
proof -
  have "length (chat_pending initial_state) = (if isSending initial_state then 1 else 0)"
    by (simp add: initial_state_def)
  then have inv: "run evs initial_state = Some s \<longrightarrow>
      length (chat_pending s) = (if isSending s then 1 else 0)"
    using run_one_chat by blast
  have noop: "isSending t \<longrightarrow> handleSendMessage t = t"
    by (simp add: handleSendMessage_def)
  have cleared: "\<not> isSending (handleSendMessage_settled outcome t)"
    by (simp add: handleSendMessage_settled_def Let_def split: sum.splits)
  show ?thesis
    using inv noop cleared step_keeps_sending by blast
qed

theorem one_chat_in_flight_witness:
  "run [FileChange (Some \<lparr>file_name = ''a.pdf'', file_type = ''application/pdf'', file_bytes = []\<rparr>),
        UploadSettled 0 (Resolved \<lparr>status = 200, json = JsonBody (JObj [(''pdf_id'', JStr ''a.pdf'')])\<rparr>),
        DocumentLoaded 3, ChatInputChange ''why?'', SendMessage,
        ChatInputChange ''and then?'', SendMessage]
     initial_state =
   Some (initial_state\<lparr>pdfId := JStr ''a.pdf'', numPages := Some 3,
     chatMessages := [\<lparr>sender = User, msg_text = JStr ''why?''\<rparr>],
     chatInput := ''and then?'', isSending := True,
     chat_pending := [\<lparr>pdf_id = JStr ''a.pdf'', query = ''why?''\<rparr>],
     alerts := [''PDF '' @ [quote] @ ''a.pdf'' @ [quote] @ '' uploaded successfully!'']\<rparr>) \<and>
   isSending (initial_state\<lparr>pdfId := JStr ''a.pdf'', numPages := Some 3,
     chatMessages := [\<lparr>sender = User, msg_text = JStr ''why?''\<rparr>],
     chatInput := ''and then?'', isSending := True,
     chat_pending := [\<lparr>pdf_id = JStr ''a.pdf'', query = ''why?''\<rparr>],
     alerts := [''PDF '' @ [quote] @ ''a.pdf'' @ [quote] @ '' uploaded successfully!'']\<rparr>) \<and>
   length (chat_pending (initial_state\<lparr>pdfId := JStr ''a.pdf'', numPages := Some 3,
     chatMessages := [\<lparr>sender = User, msg_text = JStr ''why?''\<rparr>],
     chatInput := ''and then?'', isSending := True,
     chat_pending := [\<lparr>pdf_id = JStr ''a.pdf'', query = ''why?''\<rparr>],
     alerts := [''PDF '' @ [quote] @ ''a.pdf'' @ [quote] @ '' uploaded successfully!'']\<rparr>)) = 1"
  using one_chat_in_flight [of
      "[FileChange (Some \<lparr>file_name = ''a.pdf'', file_type = ''application/pdf'', file_bytes = []\<rparr>),
        UploadSettled 0 (Resolved \<lparr>status = 200, json = JsonBody (JObj [(''pdf_id'', JStr ''a.pdf'')])\<rparr>),
        DocumentLoaded 3, ChatInputChange ''why?'', SendMessage,
        ChatInputChange ''and then?'', SendMessage]"
      "initial_state\<lparr>pdfId := JStr ''a.pdf'', numPages := Some 3,
         chatMessages := [\<lparr>sender = User, msg_text = JStr ''why?''\<rparr>],
         chatInput := ''and then?'', isSending := True,
         chat_pending := [\<lparr>pdf_id = JStr ''a.pdf'', query = ''why?''\<rparr>],
         alerts := [''PDF '' @ [quote] @ ''a.pdf'' @ [quote] @ '' uploaded successfully!'']\<rparr>"
      "initial_state\<lparr>pdfId := JStr ''a.pdf'', numPages := Some 3,
         chatMessages := [\<lparr>sender = User, msg_text = JStr ''why?''\<rparr>],
         chatInput := ''and then?'', isSending := True,
         chat_pending := [\<lparr>pdf_id = JStr ''a.pdf'', query = ''why?''\<rparr>],
         alerts := [''PDF '' @ [quote] @ ''a.pdf'' @ [quote] @ '' uploaded successfully!'']\<rparr>"
      NextPage
      "initial_state\<lparr>pdfId := JStr ''a.pdf'', numPages := Some 3,
         chatMessages := [\<lparr>sender = User, msg_text = JStr ''why?''\<rparr>],
         chatInput := ''and then?'', isSending := True,
         chat_pending := [\<lparr>pdf_id = JStr ''a.pdf'', query = ''why?''\<rparr>],
         alerts := [''PDF '' @ [quote] @ ''a.pdf'' @ [quote] @ '' uploaded successfully!'']\<rparr>"
      "Rejected (Error ''Failed to fetch'')"]
  by (simp add: initial_state_def handleSendMessage_def handleFileChange_def handleUpload_def
      handleUpload_settled_def handleUpload_try_def ok_def remove_nth_def
      onDocumentLoadSuccess_def trim_def is_white_space_def Let_def)

section \<open>Uploads\<close>

text \<open>
  C2. Picking a file sends an upload request exactly when the file's declared content type
  is \<^verbatim>\<open>application/pdf\<close>; for any other type no request is sent and the error is
  reported, in the error banner and in an alert.
\<close>

theorem upload_iff_pdf:
  "(file_type f = ''application/pdf'' \<longrightarrow>
      upload_pending (handleFileChange (Some f) s) = upload_pending s @ [f]) \<and>
   (file_type f \<noteq> ''application/pdf'' \<longrightarrow>
      upload_pending (handleFileChange (Some f) s) = upload_pending s \<and>
      error (handleFileChange (Some f) s) = Some ''Please select a valid PDF file.'' \<and>
      alerts (handleFileChange (Some f) s) = alerts s @ [''Please select a valid PDF file.'']) \<and>
   ((upload_pending (handleFileChange (Some f) s) \<noteq> upload_pending s) =
      (file_type f = ''application/pdf''))"
  by (simp add: handleFileChange_def handleUpload_def)

theorem upload_iff_pdf_witness:
  "upload_pending (handleFileChange
      (Some \<lparr>file_name = ''a.pdf'', file_type = ''application/pdf'', file_bytes = [37, 80, 68, 70]\<rparr>)
      initial_state) =
     [\<lparr>file_name = ''a.pdf'', file_type = ''application/pdf'', file_bytes = [37, 80, 68, 70]\<rparr>] \<and>
   upload_pending (handleFileChange
      (Some \<lparr>file_name = ''a.txt'', file_type = ''text/plain'', file_bytes = [104, 105]\<rparr>)
      initial_state) = [] \<and>
   error (handleFileChange
      (Some \<lparr>file_name = ''a.txt'', file_type = ''text/plain'', file_bytes = [104, 105]\<rparr>)
      initial_state) = Some ''Please select a valid PDF file.''"
  using upload_iff_pdf [of "\<lparr>file_name = ''a.pdf'', file_type = ''application/pdf'', file_bytes = [37, 80, 68, 70]\<rparr>" initial_state]
    upload_iff_pdf [of "\<lparr>file_name = ''a.txt'', file_type = ''text/plain'', file_bytes = [104, 105]\<rparr>" initial_state]
  by (simp add: initial_state_def)

text \<open>
  C5, as amended. When an upload's response is OK and \<^verbatim>\<open>pdf_id\<close> can be read from
  its JSON body, the document identifier becomes the value read, the current page is 1
  and the transcript is empty (the page count is cleared as well); the success is then
  alerted and the error cleared when the identifier can be printed, and an upload failure
  is reported on top of these updates when it cannot. When the response is OK and its
  body cannot be parsed, or is \<^verbatim>\<open>null\<close>, the upload has failed: the identifier, the
  current page and the transcript stay as they were and the error is reported.
\<close>

theorem upload_ok_selects_document:
  "(ok r \<and> json r = JsonBody result \<and> get_prop result ''pdf_id'' = Inr new_id \<longrightarrow>
      pdfId (handleUpload_settled (Resolved r) s) = new_id \<and>
      currentPage (handleUpload_settled (Resolved r) s) = 1 \<and>
      chatMessages (handleUpload_settled (Resolved r) s) = [] \<and>
      numPages (handleUpload_settled (Resolved r) s) = None \<and>
      \<not> uploading (handleUpload_settled (Resolved r) s) \<and>
      (to_string new_id = Inr shown \<longrightarrow>
         error (handleUpload_settled (Resolved r) s) = None \<and>
         alerts (handleUpload_settled (Resolved r) s) =
           alerts s @ [''PDF '' @ [quote] @ shown @ [quote] @ '' uploaded successfully!'']) \<and>
      (to_string new_id = Inl e \<longrightarrow>
         (\<exists>m. error (handleUpload_settled (Resolved r) s) = Some m \<and>
              alerts (handleUpload_settled (Resolved r) s) =
                alerts s @ [''Upload failed: '' @ m]))) \<and>
   (ok r \<and> (json r = BadBody e \<or>
            (json r = JsonBody result \<and> get_prop result ''pdf_id'' = Inl e)) \<longrightarrow>
      pdfId (handleUpload_settled (Resolved r) s) = pdfId s \<and>
      currentPage (handleUpload_settled (Resolved r) s) = currentPage s \<and>
      chatMessages (handleUpload_settled (Resolved r) s) = chatMessages s \<and>
      (\<exists>m. error (handleUpload_settled (Resolved r) s) = Some m))"
  by (auto simp: handleUpload_settled_def handleUpload_try_def handleUpload_catch_def Let_def
      split: sum.splits thrown.splits)

theorem upload_ok_selects_document_witness:
  "ok \<lparr>status = 200, json = JsonBody (JObj [(''pdf_id'', JStr ''b.pdf'')])\<rparr> \<and>
   get_prop (JObj [(''pdf_id'', JStr ''b.pdf'')]) ''pdf_id'' = Inr (JStr ''b.pdf'') \<and>
   to_string (JStr ''b.pdf'') = Inr ''b.pdf'' \<and>
   pdfId (handleUpload_settled
     (Resolved \<lparr>status = 200, json = JsonBody (JObj [(''pdf_id'', JStr ''b.pdf'')])\<rparr>)
     (initial_state\<lparr>uploading := True, currentPage := 7, numPages := Some 9,
        chatMessages := [\<lparr>sender = User, msg_text = JStr ''where?''\<rparr>]\<rparr>)) = JStr ''b.pdf'' \<and>
   currentPage (handleUpload_settled
     (Resolved \<lparr>status = 200, json = JsonBody (JObj [(''pdf_id'', JStr ''b.pdf'')])\<rparr>)
     (initial_state\<lparr>uploading := True, currentPage := 7, numPages := Some 9,
        chatMessages := [\<lparr>sender = User, msg_text = JStr ''where?''\<rparr>]\<rparr>)) = 1 \<and>
   chatMessages (handleUpload_settled
     (Resolved \<lparr>status = 200, json = JsonBody (JObj [(''pdf_id'', JStr ''b.pdf'')])\<rparr>)
     (initial_state\<lparr>uploading := True, currentPage := 7, numPages := Some 9,
        chatMessages := [\<lparr>sender = User, msg_text = JStr ''where?''\<rparr>]\<rparr>)) = [] \<and>
   error (handleUpload_settled
     (Resolved \<lparr>status = 200, json = JsonBody (JObj [(''pdf_id'', JStr ''b.pdf'')])\<rparr>)
     (initial_state\<lparr>uploading := True, currentPage := 7, numPages := Some 9,
        chatMessages := [\<lparr>sender = User, msg_text = JStr ''where?''\<rparr>]\<rparr>)) = None"
  using upload_ok_selects_document
    [of "\<lparr>status = 200, json = JsonBody (JObj [(''pdf_id'', JStr ''b.pdf'')])\<rparr>"
        "JObj [(''pdf_id'', JStr ''b.pdf'')]" "JStr ''b.pdf''"
        "initial_state\<lparr>uploading := True, currentPage := 7, numPages := Some 9,
           chatMessages := [\<lparr>sender = User, msg_text = JStr ''where?''\<rparr>]\<rparr>"
        "''b.pdf''" "Error ''x''"]
  by (simp add: ok_def)

text \<open>
  The claim as the spec has it fails: a response with status 200 and an empty body is OK,
  and after it no document is selected, the current page is still 7 and the transcript
  still holds its message.
\<close>

theorem upload_ok_unreadable_counterexample:
  "ok \<lparr>status = 200, json = BadBody (Error ''Unexpected end of JSON input'')\<rparr> \<and>
   pdfId (handleUpload_settled
     (Resolved \<lparr>status = 200, json = BadBody (Error ''Unexpected end of JSON input'')\<rparr>)
     (handleUpload (Some \<lparr>file_name = ''b.pdf'', file_type = ''application/pdf'', file_bytes = []\<rparr>)
        (initial_state\<lparr>pdfId := JStr ''a.pdf'', currentPage := 7, numPages := Some 9,
           chatMessages := [\<lparr>sender = User, msg_text = JStr ''where?''\<rparr>]\<rparr>))) = JNull \<and>
   currentPage (handleUpload_settled
     (Resolved \<lparr>status = 200, json = BadBody (Error ''Unexpected end of JSON input'')\<rparr>)
     (handleUpload (Some \<lparr>file_name = ''b.pdf'', file_type = ''application/pdf'', file_bytes = []\<rparr>)
        (initial_state\<lparr>pdfId := JStr ''a.pdf'', currentPage := 7, numPages := Some 9,
           chatMessages := [\<lparr>sender = User, msg_text = JStr ''where?''\<rparr>]\<rparr>))) = 7 \<and>
   chatMessages (handleUpload_settled
     (Resolved \<lparr>status = 200, json = BadBody (Error ''Unexpected end of JSON input'')\<rparr>)
     (handleUpload (Some \<lparr>file_name = ''b.pdf'', file_type = ''application/pdf'', file_bytes = []\<rparr>)
        (initial_state\<lparr>pdfId := JStr ''a.pdf'', currentPage := 7, numPages := Some 9,
           chatMessages := [\<lparr>sender = User, msg_text = JStr ''where?''\<rparr>]\<rparr>))) =
     [\<lparr>sender = User, msg_text = JStr ''where?''\<rparr>]"
  by (simp add: ok_def handleUpload_settled_def handleUpload_try_def handleUpload_catch_def
      handleUpload_def initial_state_def Let_def)

lemma show_nat_500: "show_nat 500 = ''500''"
  by code_simp

lemma show_nat_502: "show_nat 502 = ''502''"
  by code_simp

lemma get_prop_defined:
  "d \<noteq> JNull \<Longrightarrow> d \<noteq> JUndefined \<Longrightarrow> \<exists>v. get_prop d key = Inr v"
  by (cases d) (auto split: option.splits)

text \<open>
  C6, as amended. When an upload's response is not OK, the reported error is: the body's
  \<^verbatim>\<open>description\<close> when the body is JSON and that field is a non-empty string;
  ``Upload failed with status: '' followed by the status when the body cannot be parsed;
  the fixed ``Failed to upload PDF.'', which does not name the status, when the body is
  JSON other than \<^verbatim>\<open>null\<close> (every such body has a value for the field, possibly
  \<^verbatim>\<open>undefined\<close>) and its \<^verbatim>\<open>description\<close> is missing or falsy; the message of the
  TypeError of reading \<^verbatim>\<open>description\<close> when the body is \<^verbatim>\<open>null\<close>; and, for a
  truthy \<^verbatim>\<open>description\<close> of any type, \<^verbatim>\<open>String(description)\<close>, or the message of the
  TypeError when that conversion throws. In each case the alert shows the same message
  after ``Upload failed: ''.
\<close>

theorem upload_error_message:
  assumes "\<not> ok r"
  shows "(json r = JsonBody d \<and> get_prop d ''description'' = Inr (JStr description) \<and>
            description \<noteq> [] \<longrightarrow>
            error (handleUpload_settled (Resolved r) s) = Some description) \<and>
         (json r = BadBody e \<longrightarrow>
            error (handleUpload_settled (Resolved r) s) =
              Some (''Upload failed with status: '' @ show_nat (status r))) \<and>
         (json r = JsonBody d \<and> d \<noteq> JNull \<and> d \<noteq> JUndefined \<longrightarrow>
            (\<exists>v. get_prop d ''description'' = Inr v)) \<and>
         (json r = JsonBody d \<and> get_prop d ''description'' = Inr v \<and> \<not> truthy v \<longrightarrow>
            error (handleUpload_settled (Resolved r) s) = Some ''Failed to upload PDF.'') \<and>
         (json r = JsonBody JNull \<longrightarrow>
            error (handleUpload_settled (Resolved r) s) =
              Some (cannot_read ''null'' ''description'')) \<and>
         (json r = JsonBody d \<and> get_prop d ''description'' = Inr v \<and> truthy v \<and>
            to_string v = Inr m \<longrightarrow>
            error (handleUpload_settled (Resolved r) s) = Some m) \<and>
         (json r = JsonBody d \<and> get_prop d ''description'' = Inr v \<and> truthy v \<and>
            to_string v = Inl (Error m) \<longrightarrow>
            error (handleUpload_settled (Resolved r) s) = Some m) \<and>
         (\<exists>m'. error (handleUpload_settled (Resolved r) s) = Some m' \<and>
              alerts (handleUpload_settled (Resolved r) s) = alerts s @ [''Upload failed: '' @ m'])"
proof -
  have defined: "json r = JsonBody d \<and> d \<noteq> JNull \<and> d \<noteq> JUndefined \<longrightarrow>
                 (\<exists>v. get_prop d ''description'' = Inr v)"
    using get_prop_defined by blast
  have rest: "(json r = JsonBody d \<and> get_prop d ''description'' = Inr (JStr description) \<and>
            description \<noteq> [] \<longrightarrow>
            error (handleUpload_settled (Resolved r) s) = Some description) \<and>
         (json r = BadBody e \<longrightarrow>
            error (handleUpload_settled (Resolved r) s) =
              Some (''Upload failed with status: '' @ show_nat (status r))) \<and>
         (json r = JsonBody d \<and> get_prop d ''description'' = Inr v \<and> \<not> truthy v \<longrightarrow>
            error (handleUpload_settled (Resolved r) s) = Some ''Failed to upload PDF.'') \<and>
         (json r = JsonBody JNull \<longrightarrow>
            error (handleUpload_settled (Resolved r) s) =
              Some (cannot_read ''null'' ''description'')) \<and>
         (json r = JsonBody d \<and> get_prop d ''description'' = Inr v \<and> truthy v \<and>
            to_string v = Inr m \<longrightarrow>
            error (handleUpload_settled (Resolved r) s) = Some m) \<and>
         (json r = JsonBody d \<and> get_prop d ''description'' = Inr v \<and> truthy v \<and>
            to_string v = Inl (Error m) \<longrightarrow>
            error (handleUpload_settled (Resolved r) s) = Some m)"
    using assms
    by (simp add: handleUpload_settled_def handleUpload_try_def handleUpload_catch_def
        throw_new_Error_def Let_def)
  have reported: "\<exists>m'. error (handleUpload_settled (Resolved r) s) = Some m' \<and>
              alerts (handleUpload_settled (Resolved r) s) = alerts s @ [''Upload failed: '' @ m']"
    using assms
    by (auto simp: handleUpload_settled_def handleUpload_try_def handleUpload_catch_def Let_def
        split: body.splits sum.splits thrown.splits)
  from defined rest reported show ?thesis by blast
qed

theorem upload_error_message_witness:
  "\<not> ok \<lparr>status = 422, json = JsonBody (JObj [(''description'', JStr ''UnreadableDocument'')])\<rparr> \<and>
   error (handleUpload_settled
     (Resolved \<lparr>status = 422, json = JsonBody (JObj [(''description'', JStr ''UnreadableDocument'')])\<rparr>)
     initial_state) = Some ''UnreadableDocument'' \<and>
   \<not> ok \<lparr>status = 502, json = BadBody (Error ''Unexpected token'')\<rparr> \<and>
   error (handleUpload_settled
     (Resolved \<lparr>status = 502, json = BadBody (Error ''Unexpected token'')\<rparr>) initial_state) =
     Some ''Upload failed with status: 502'' \<and>
   \<not> ok \<lparr>status = 500, json = JsonBody (JObj [(''kind'', JStr ''InvalidConfiguration'')])\<rparr> \<and>
   error (handleUpload_settled
     (Resolved \<lparr>status = 500, json = JsonBody (JObj [(''kind'', JStr ''InvalidConfiguration'')])\<rparr>)
     initial_state) = Some ''Failed to upload PDF.'' \<and>
   \<not> ok \<lparr>status = 500, json = JsonBody JNull\<rparr> \<and>
   error (handleUpload_settled (Resolved \<lparr>status = 500, json = JsonBody JNull\<rparr>) initial_state) =
     Some (cannot_read ''null'' ''description'')"
proof -
  have h1: "\<not> ok \<lparr>status = 422, json = JsonBody (JObj [(''description'', JStr ''UnreadableDocument'')])\<rparr>"
    and h2: "\<not> ok \<lparr>status = 502, json = BadBody (Error ''Unexpected token'')\<rparr>"
    and h3: "\<not> ok \<lparr>status = 500, json = JsonBody (JObj [(''kind'', JStr ''InvalidConfiguration'')])\<rparr>"
    and h4: "\<not> ok \<lparr>status = 500, json = JsonBody JNull\<rparr>"
    by (simp_all add: ok_def)
  show ?thesis
    using h1 h2 h3 h4
      upload_error_message [OF h1, of "JObj [(''description'', JStr ''UnreadableDocument'')]"
        "''UnreadableDocument''" initial_state "Error ''x''" JUndefined "''x''"]
      upload_error_message [OF h2, of JNull "''x''" initial_state "Error ''Unexpected token''"
        JUndefined "''x''"]
      upload_error_message [OF h3, of "JObj [(''kind'', JStr ''InvalidConfiguration'')]" "''x''"
        initial_state "Error ''x''" JUndefined "''x''"]
      upload_error_message [OF h4, of JNull "''x''" initial_state "Error ''x''" JUndefined "''x''"]
    by (simp add: show_nat_502)
qed

text \<open>
  The claim as the spec has it fails: a response with status 500 whose body is the JSON
  object without a \<^verbatim>\<open>description\<close> is reported as ``Failed to upload PDF.'', and the
  digits of the status occur nowhere in that message.
\<close>

theorem upload_fallback_counterexample:
  "\<not> ok \<lparr>status = 500, json = JsonBody (JObj [])\<rparr> \<and>
   get_prop (JObj []) ''description'' = Inr JUndefined \<and>
   error (handleUpload_settled (Resolved \<lparr>status = 500, json = JsonBody (JObj [])\<rparr>)
            (handleUpload (Some \<lparr>file_name = ''a.pdf'', file_type = ''application/pdf'', file_bytes = []\<rparr>)
               initial_state)) = Some ''Failed to upload PDF.'' \<and>
   \<not> (\<exists>pre post. ''Failed to upload PDF.'' = pre @ show_nat 500 @ post)"
proof -
  have "\<not> (\<exists>pre post. ''Failed to upload PDF.'' = pre @ show_nat 500 @ post)"
  proof
    assume "\<exists>pre post. ''Failed to upload PDF.'' = pre @ show_nat 500 @ post"
    then obtain pre post where "''Failed to upload PDF.'' = pre @ ''500'' @ post"
      unfolding show_nat_500 by blast
    then have "set ''Failed to upload PDF.'' = set (pre @ ''500'' @ post)" by simp
    then have "CHR ''5'' \<in> set ''Failed to upload PDF.''" by simp
    then show False by simp
  qed
  then show ?thesis
    by (simp add: ok_def handleUpload_settled_def handleUpload_try_def handleUpload_catch_def
        throw_new_Error_def handleUpload_def initial_state_def Let_def)
qed

lemma failed_upload_try:
  assumes "(\<exists>e. outcome = Rejected e) \<or>
           (\<exists>r. outcome = Resolved r \<and>
                (\<not> ok r \<or> (\<exists>e. json r = BadBody e) \<or> json r = JsonBody JNull))"
  shows "\<exists>e. handleUpload_try outcome = Inl e"
  using assms
  by (auto simp: handleUpload_try_def Let_def split: body.splits sum.splits)

text \<open>
  C8, as amended. An upload attempt clears the document identifier as it sends its
  request and leaves the transcript alone. An upload that fails before the response's
  \<^verbatim>\<open>pdf_id\<close> has been read (the request is rejected, the response is not OK, or the
  body of an OK response cannot be parsed or is \<^verbatim>\<open>null\<close>: in each case the
  \<^verbatim>\<open>try\<close> block throws before its first state update) changes neither the identifier
  nor the transcript, so after such a failed attempt no document is selected, whatever
  was selected before, and the transcript is the one from before the attempt.
\<close>

theorem failed_upload_leaves_no_document:
  "pdfId (handleUpload (Some f) s) = JNull \<and>
   upload_pending (handleUpload (Some f) s) = upload_pending s @ [f] \<and>
   chatMessages (handleUpload (Some f) s) = chatMessages s \<and>
   (handleUpload_try outcome = Inl e \<longrightarrow>
      pdfId (handleUpload_settled outcome t) = pdfId t \<and>
      chatMessages (handleUpload_settled outcome t) = chatMessages t) \<and>
   ((\<exists>e'. outcome = Rejected e') \<or>
    (\<exists>r. outcome = Resolved r \<and>
         (\<not> ok r \<or> (\<exists>e'. json r = BadBody e') \<or> json r = JsonBody JNull)) \<longrightarrow>
      (\<exists>e'. handleUpload_try outcome = Inl e') \<and>
      pdfId (handleUpload_settled outcome (handleUpload (Some f) s)) = JNull \<and>
      chatMessages (handleUpload_settled outcome (handleUpload (Some f) s)) = chatMessages s \<and>
      (\<exists>m. error (handleUpload_settled outcome (handleUpload (Some f) s)) = Some m))"
proof -
  have start: "pdfId (handleUpload (Some f) s) = JNull"
    "upload_pending (handleUpload (Some f) s) = upload_pending s @ [f]"
    "chatMessages (handleUpload (Some f) s) = chatMessages s"
    by (simp_all add: handleUpload_def)
  have settled: "pdfId (handleUpload_settled outcome u) = pdfId u \<and>
                 chatMessages (handleUpload_settled outcome u) = chatMessages u \<and>
                 (\<exists>m. error (handleUpload_settled outcome u) = Some m)"
    if "handleUpload_try outcome = Inl e'" for u e'
    using that by (simp add: handleUpload_settled_def handleUpload_catch_def Let_def)
  have early: "(\<exists>e'. handleUpload_try outcome = Inl e') \<and>
      pdfId (handleUpload_settled outcome (handleUpload (Some f) s)) = JNull \<and>
      chatMessages (handleUpload_settled outcome (handleUpload (Some f) s)) = chatMessages s \<and>
      (\<exists>m. error (handleUpload_settled outcome (handleUpload (Some f) s)) = Some m)"
    if c: "(\<exists>e'. outcome = Rejected e') \<or>
           (\<exists>r. outcome = Resolved r \<and>
                (\<not> ok r \<or> (\<exists>e'. json r = BadBody e') \<or> json r = JsonBody JNull))"
  proof -
    obtain e' where e': "handleUpload_try outcome = Inl e'"
      using failed_upload_try [OF c] by blast
    from settled [OF e', of "handleUpload (Some f) s"] start e' show ?thesis by auto
  qed
  show ?thesis
    using start settled [of e t] early by blast
qed

theorem failed_upload_leaves_no_document_witness:
  "\<not> ok \<lparr>status = 500, json = JsonBody (JObj [(''description'', JStr ''UnreadableDocument'')])\<rparr> \<and>
   handleUpload_try
     (Resolved \<lparr>status = 500, json = JsonBody (JObj [(''description'', JStr ''UnreadableDocument'')])\<rparr>) =
     Inl (Error ''UnreadableDocument'') \<and>
   pdfId (handleUpload_settled
     (Resolved \<lparr>status = 500, json = JsonBody (JObj [(''description'', JStr ''UnreadableDocument'')])\<rparr>)
     (handleUpload (Some \<lparr>file_name = ''b.pdf'', file_type = ''application/pdf'', file_bytes = []\<rparr>)
        (initial_state\<lparr>pdfId := JStr ''a.pdf'',
           chatMessages := [\<lparr>sender = User, msg_text = JStr ''where?''\<rparr>]\<rparr>))) = JNull \<and>
   chatMessages (handleUpload_settled
     (Resolved \<lparr>status = 500, json = JsonBody (JObj [(''description'', JStr ''UnreadableDocument'')])\<rparr>)
     (handleUpload (Some \<lparr>file_name = ''b.pdf'', file_type = ''application/pdf'', file_bytes = []\<rparr>)
        (initial_state\<lparr>pdfId := JStr ''a.pdf'',
           chatMessages := [\<lparr>sender = User, msg_text = JStr ''where?''\<rparr>]\<rparr>))) =
     [\<lparr>sender = User, msg_text = JStr ''where?''\<rparr>]"
proof -
  have h: "\<not> ok \<lparr>status = 500, json = JsonBody (JObj [(''description'', JStr ''UnreadableDocument'')])\<rparr>"
    by (simp add: ok_def)
  have t: "handleUpload_try
     (Resolved \<lparr>status = 500, json = JsonBody (JObj [(''description'', JStr ''UnreadableDocument'')])\<rparr>) =
     Inl (Error ''UnreadableDocument'')"
    by (simp add: handleUpload_try_def throw_new_Error_def ok_def Let_def)
  show ?thesis
    using h t failed_upload_leaves_no_document
      [of "\<lparr>file_name = ''b.pdf'', file_type = ''application/pdf'', file_bytes = []\<rparr>"
          "initial_state\<lparr>pdfId := JStr ''a.pdf'',
             chatMessages := [\<lparr>sender = User, msg_text = JStr ''where?''\<rparr>]\<rparr>"
          "Resolved \<lparr>status = 500, json = JsonBody (JObj [(''description'', JStr ''UnreadableDocument'')])\<rparr>"
          "Error ''UnreadableDocument''" initial_state]
    by (simp add: initial_state_def)
qed

text \<open>
  The claim as the spec has it fails: an OK response whose \<^verbatim>\<open>pdf_id\<close> is an object
  with a key \<^verbatim>\<open>toString\<close> cannot be printed in the success alert, which is built
  inside the \<^verbatim>\<open>try\<close> block after the state updates. The page then reports a failed
  upload, with the identifier set to that object and the former transcript gone.
\<close>

theorem upload_failure_after_update_counterexample:
  "ok \<lparr>status = 200, json = JsonBody (JObj [(''pdf_id'', JObj [(''toString'', JNull)])])\<rparr> \<and>
   error (handleUpload_settled
     (Resolved \<lparr>status = 200, json = JsonBody (JObj [(''pdf_id'', JObj [(''toString'', JNull)])])\<rparr>)
     (handleUpload (Some \<lparr>file_name = ''b.pdf'', file_type = ''application/pdf'', file_bytes = []\<rparr>)
        (initial_state\<lparr>pdfId := JStr ''a.pdf'',
           chatMessages := [\<lparr>sender = User, msg_text = JStr ''where?''\<rparr>]\<rparr>))) =
     Some cannot_convert \<and>
   alerts (handleUpload_settled
     (Resolved \<lparr>status = 200, json = JsonBody (JObj [(''pdf_id'', JObj [(''toString'', JNull)])])\<rparr>)
     (handleUpload (Some \<lparr>file_name = ''b.pdf'', file_type = ''application/pdf'', file_bytes = []\<rparr>)
        (initial_state\<lparr>pdfId := JStr ''a.pdf'',
           chatMessages := [\<lparr>sender = User, msg_text = JStr ''where?''\<rparr>]\<rparr>))) =
     [''Upload failed: '' @ cannot_convert] \<and>
   pdfId (handleUpload_settled
     (Resolved \<lparr>status = 200, json = JsonBody (JObj [(''pdf_id'', JObj [(''toString'', JNull)])])\<rparr>)
     (handleUpload (Some \<lparr>file_name = ''b.pdf'', file_type = ''application/pdf'', file_bytes = []\<rparr>)
        (initial_state\<lparr>pdfId := JStr ''a.pdf'',
           chatMessages := [\<lparr>sender = User, msg_text = JStr ''where?''\<rparr>]\<rparr>))) =
     JObj [(''toString'', JNull)] \<and>
   chatMessages (handleUpload_settled
     (Resolved \<lparr>status = 200, json = JsonBody (JObj [(''pdf_id'', JObj [(''toString'', JNull)])])\<rparr>)
     (handleUpload (Some \<lparr>file_name = ''b.pdf'', file_type = ''application/pdf'', file_bytes = []\<rparr>)
        (initial_state\<lparr>pdfId := JStr ''a.pdf'',
           chatMessages := [\<lparr>sender = User, msg_text = JStr ''where?''\<rparr>]\<rparr>))) = []"
  by (simp add: ok_def handleUpload_settled_def handleUpload_try_def handleUpload_catch_def
      handleUpload_def initial_state_def Let_def)

section \<open>Turning pages\<close>

lemma turn_in_bounds:
  assumes "page_in_bounds s"
  shows "page_in_bounds (turn p s) \<and> numPages (turn p s) = numPages s"
  using assms
  by (cases p)
    (auto simp: page_in_bounds_def goToPrevPage_def goToNextPage_def split: option.splits)

lemma turn_all_in_bounds:
  "page_in_bounds s \<Longrightarrow>
   page_in_bounds (turn_all ops s) \<and> numPages (turn_all ops s) = numPages s"
proof (induction ops arbitrary: s)
  case Nil
  then show ?case by (simp add: turn_all_def)
next
  case (Cons p ops)
  from Cons.prems have first: "page_in_bounds (turn p s)" "numPages (turn p s) = numPages s"
    using turn_in_bounds by blast+
  have "turn_all (p # ops) s = turn_all ops (turn p s)"
    by (simp add: turn_all_def)
  with Cons.IH [OF first(1)] first(2) show ?case by simp
qed

text \<open>
  C9. The current page starts at 1. From a state whose current page is within bounds (at
  least 1 and, when the page count is known, at most the count), every sequence of
  previous-page and next-page operations ends with the current page at least 1 and at
  most the known count, the count itself unchanged. A successful upload sets the current
  page to 1, which is within bounds.
\<close>

theorem page_stays_in_bounds:
  "currentPage initial_state = 1 \<and>
   page_in_bounds initial_state \<and>
   (page_in_bounds s \<longrightarrow>
      1 \<le> currentPage (turn_all ops s) \<and>
      (\<forall>n. numPages s = Some n \<longrightarrow> currentPage (turn_all ops s) \<le> n) \<and>
      numPages (turn_all ops s) = numPages s) \<and>
   (ok r \<and> json r = JsonBody result \<and> get_prop result ''pdf_id'' = Inr new_id \<longrightarrow>
      currentPage (handleUpload_settled (Resolved r) s) = 1 \<and>
      page_in_bounds (handleUpload_settled (Resolved r) s))"
proof -
  have init: "currentPage initial_state = 1 \<and> page_in_bounds initial_state"
    by (simp add: initial_state_def page_in_bounds_def)
  have nav: "1 \<le> currentPage (turn_all ops s) \<and>
             (\<forall>n. numPages s = Some n \<longrightarrow> currentPage (turn_all ops s) \<le> n) \<and>
             numPages (turn_all ops s) = numPages s" if "page_in_bounds s"
    using turn_all_in_bounds [OF that, of ops]
    by (auto simp: page_in_bounds_def split: option.splits)
  have up: "currentPage (handleUpload_settled (Resolved r) s) = 1 \<and>
            page_in_bounds (handleUpload_settled (Resolved r) s)"
    if "ok r" "json r = JsonBody result" "get_prop result ''pdf_id'' = Inr new_id"
    using that
    by (simp add: handleUpload_settled_def handleUpload_try_def handleUpload_catch_def
        Let_def page_in_bounds_def split: sum.splits)
  show ?thesis
    using init nav up by blast
qed

theorem page_stays_in_bounds_witness:
  "page_in_bounds (initial_state\<lparr>numPages := Some 3\<rparr>) \<and>
   currentPage (turn_all [Prev, Next, Next, Next, Next, Prev] (initial_state\<lparr>numPages := Some 3\<rparr>)) = 2 \<and>
   currentPage (turn_all [Next, Next, Next, Next] (initial_state\<lparr>numPages := Some 3\<rparr>)) = 3 \<and>
   currentPage (turn_all [Next, Prev, Prev] initial_state) = 1 \<and>
   ok \<lparr>status = 200, json = JsonBody (JObj [(''pdf_id'', JStr ''b.pdf'')])\<rparr> \<and>
   currentPage (handleUpload_settled
     (Resolved \<lparr>status = 200, json = JsonBody (JObj [(''pdf_id'', JStr ''b.pdf'')])\<rparr>)
     (initial_state\<lparr>numPages := Some 3, currentPage := 3\<rparr>)) = 1"
  using page_stays_in_bounds [of "initial_state\<lparr>numPages := Some 3\<rparr>"
      "[Prev, Next, Next, Next, Next, Prev]"
      "\<lparr>status = 200, json = JsonBody (JObj [(''pdf_id'', JStr ''b.pdf'')])\<rparr>"
      "JObj [(''pdf_id'', JStr ''b.pdf'')]" "JStr ''b.pdf''"]
    page_stays_in_bounds [of "initial_state\<lparr>numPages := Some 3, currentPage := 3\<rparr>" "[]"
      "\<lparr>status = 200, json = JsonBody (JObj [(''pdf_id'', JStr ''b.pdf'')])\<rparr>"
      "JObj [(''pdf_id'', JStr ''b.pdf'')]" "JStr ''b.pdf''"]
  by (simp add: page_in_bounds_def initial_state_def turn_all_def goToPrevPage_def
      goToNextPage_def ok_def handleUpload_settled_def handleUpload_try_def Let_def)

section \<open>Chunk coverage\<close>

text \<open>The \<open>i\<close>-th window starts \<open>i\<close> steps after the first and has the full size, cut at
  the end of the text.\<close>

lemma windows_nth:
  "i < length (windows L s ov a) \<Longrightarrow>
   windows L s ov a ! i = (a + i * (s - ov), min (a + i * (s - ov) + s) L)"
proof (induction L s ov a arbitrary: i rule: windows.induct)
  case (1 L s ov a)
  show ?case
  proof (cases "a < L \<and> ov < s")
    case False
    with "1.prems" show ?thesis by (simp add: windows.simps [of L s ov a])
  next
    case True
    show ?thesis
    proof (cases i)
      case 0
      with True show ?thesis by (simp add: windows.simps [of L s ov a])
    next
      case (Suc j)
      with "1.prems" True have more: "a + s < L"
        by (simp add: windows.simps [of L s ov a] split: if_splits)
      with "1.prems" True Suc have j: "j < length (windows L s ov (a + (s - ov)))"
        by (simp add: windows.simps [of L s ov a])
      have "windows L s ov a ! i = windows L s ov (a + (s - ov)) ! j"
        using True more Suc by (simp add: windows.simps [of L s ov a])
      also have "\<dots> = (a + (s - ov) + j * (s - ov), min (a + (s - ov) + j * (s - ov) + s) L)"
        using "1.IH" [OF True more j] .
      finally show ?thesis using Suc by simp
    qed
  qed
qed

text \<open>A window that has a successor ends before the end of the text.\<close>

lemma windows_not_last:
  "Suc i < length (windows L s ov a) \<Longrightarrow> a + i * (s - ov) + s < L"
proof (induction L s ov a arbitrary: i rule: windows.induct)
  case (1 L s ov a)
  show ?case
  proof (cases "a < L \<and> ov < s")
    case False
    with "1.prems" show ?thesis by (simp add: windows.simps [of L s ov a])
  next
    case True
    with "1.prems" have more: "a + s < L"
      by (simp add: windows.simps [of L s ov a] split: if_splits)
    show ?thesis
    proof (cases i)
      case 0
      with more show ?thesis by simp
    next
      case (Suc j)
      with "1.prems" True more have "Suc j < length (windows L s ov (a + (s - ov)))"
        by (simp add: windows.simps [of L s ov a])
      from "1.IH" [OF True more this] Suc show ?thesis by simp
    qed
  qed
qed

lemma windows_cover:
  "ov < s \<Longrightarrow> a \<le> k \<Longrightarrow> k < L \<Longrightarrow> \<exists>w \<in> set (windows L s ov a). fst w \<le> k \<and> k < snd w"
proof (induction L s ov a rule: windows.induct)
  case (1 L s ov a)
  from "1.prems" have guard: "a < L \<and> ov < s" by simp
  show ?case
  proof (cases "k < a + s")
    case True
    with "1.prems" guard show ?thesis
      by (simp add: windows.simps [of L s ov a])
  next
    case False
    with "1.prems" have more: "a + s < L" by simp
    from False "1.prems" have "a + (s - ov) \<le> k" by simp
    from "1.IH" [OF guard more "1.prems"(1) this "1.prems"(3)]
    show ?thesis using guard more by (simp add: windows.simps [of L s ov a])
  qed
qed

text \<open>
  C7. With \<open>overlap < chunk_size\<close> the chunker returns chunks such that: the \<open>i\<close>-th chunk
  starts at \<open>i * (chunk_size - overlap)\<close>, ends \<open>chunk_size\<close> later or at the end of the
  text, and holds the text of its span; every offset of the text lies in the span of
  some chunk; and every chunk that has a successor has exactly \<open>chunk_size\<close> characters
  and shares exactly \<open>overlap\<close> offsets with its successor. Only the final chunk can
  therefore be shorter than \<open>chunk_size\<close>.
\<close>

theorem chunk_coverage:
  fixes pages :: "(nat \<times> string) list"
  defines "extracted \<equiv> concat (map snd pages)"
  assumes "overlap < chunk_size"
  shows "\<exists>cs. chunk pages chunk_size overlap = Inr cs \<and>
    (\<forall>i<length cs.
       span_start (cs ! i) = i * (chunk_size - overlap) \<and>
       span_end (cs ! i) = min (span_start (cs ! i) + chunk_size) (length extracted) \<and>
       chunk_text (cs ! i) =
         take (span_end (cs ! i) - span_start (cs ! i)) (drop (span_start (cs ! i)) extracted)) \<and>
    (\<forall>k<length extracted. \<exists>c\<in>set cs. span_start c \<le> k \<and> k < span_end c) \<and>
    (\<forall>i. Suc i < length cs \<longrightarrow>
       span_end (cs ! i) = span_start (cs ! i) + chunk_size \<and>
       card ({span_start (cs ! i)..<span_end (cs ! i)} \<inter>
             {span_start (cs ! Suc i)..<span_end (cs ! Suc i)}) = overlap)"
proof -
  let ?L = "length extracted"
  let ?d = "chunk_size - overlap"
  define ws where "ws = windows ?L chunk_size overlap 0"
  define mk where "mk = (\<lambda>(a, b). \<lparr>chunk_text = take (b - a) (drop a extracted),
                                      span_start = a, span_end = b\<rparr>)"
  define cs where "cs = map mk ws"
  have res: "chunk pages chunk_size overlap = Inr cs"
    using assms(2)
    by (simp add: chunk_def Let_def cs_def mk_def ws_def extracted_def)
  have len: "length cs = length ws" by (simp add: cs_def)
  have nth: "span_start (cs ! i) = i * ?d \<and>
             span_end (cs ! i) = min (span_start (cs ! i) + chunk_size) ?L \<and>
             chunk_text (cs ! i) =
               take (span_end (cs ! i) - span_start (cs ! i)) (drop (span_start (cs ! i)) extracted)"
    if "i < length cs" for i
  proof -
    from that len have i: "i < length ws" by simp
    then have "ws ! i = (i * ?d, min (i * ?d + chunk_size) ?L)"
      using windows_nth [of i ?L chunk_size overlap 0] by (simp add: ws_def)
    with i show ?thesis by (simp add: cs_def mk_def)
  qed
  have cover: "\<exists>c\<in>set cs. span_start c \<le> k \<and> k < span_end c" if k: "k < ?L" for k
  proof -
    obtain w where w: "w \<in> set ws" "fst w \<le> k" "k < snd w"
      using windows_cover [OF assms(2) le0 k] unfolding ws_def by blast
    then have "mk w \<in> set cs" by (simp add: cs_def)
    moreover have "span_start (mk w) \<le> k \<and> k < span_end (mk w)"
      using w(2,3) by (cases w) (simp add: mk_def)
    ultimately show ?thesis by blast
  qed
  have consecutive: "span_end (cs ! i) = span_start (cs ! i) + chunk_size \<and>
       card ({span_start (cs ! i)..<span_end (cs ! i)} \<inter>
             {span_start (cs ! Suc i)..<span_end (cs ! Suc i)}) = overlap"
    if "Suc i < length cs" for i
  proof -
    from that len have full: "i * ?d + chunk_size < ?L"
      using windows_not_last [of i ?L chunk_size overlap 0] by (simp add: ws_def)
    moreover from that have "i < length cs" by simp
    ultimately have a: "span_start (cs ! i) = i * ?d" "span_end (cs ! i) = i * ?d + chunk_size"
      using nth [of i] by simp_all
    have b: "span_start (cs ! Suc i) = i * ?d + ?d"
      "span_end (cs ! Suc i) = min (i * ?d + ?d + chunk_size) ?L"
      using nth [OF that] by simp_all
    have "{span_start (cs ! i)..<span_end (cs ! i)} \<inter>
          {span_start (cs ! Suc i)..<span_end (cs ! Suc i)} =
          {i * ?d + ?d..<i * ?d + chunk_size}"
      unfolding a b using full assms(2) by auto
    then have "card ({span_start (cs ! i)..<span_end (cs ! i)} \<inter>
          {span_start (cs ! Suc i)..<span_end (cs ! Suc i)}) = overlap"
      using assms(2) by simp
    with a show ?thesis by simp
  qed
  have starts: "\<forall>i<length cs.
       span_start (cs ! i) = i * ?d \<and>
       span_end (cs ! i) = min (span_start (cs ! i) + chunk_size) ?L \<and>
       chunk_text (cs ! i) =
         take (span_end (cs ! i) - span_start (cs ! i)) (drop (span_start (cs ! i)) extracted)"
    using nth by blast
  have covered: "\<forall>k<?L. \<exists>c\<in>set cs. span_start c \<le> k \<and> k < span_end c"
    using cover by blast
  have overlaps: "\<forall>i. Suc i < length cs \<longrightarrow>
       span_end (cs ! i) = span_start (cs ! i) + chunk_size \<and>
       card ({span_start (cs ! i)..<span_end (cs ! i)} \<inter>
             {span_start (cs ! Suc i)..<span_end (cs ! Suc i)}) = overlap"
    using consecutive by blast
  from res starts covered overlaps show ?thesis by blast
qed

theorem chunk_coverage_witness:
  "(3::nat) < 9 \<and>
   chunk [(1, ''AAAA BBBB ''), (2, ''CCCC DDDD'')] 9 3 =
     Inr [\<lparr>chunk_text = ''AAAA BBBB'', span_start = 0, span_end = 9\<rparr>,
          \<lparr>chunk_text = ''BBB CCCC '', span_start = 6, span_end = 15\<rparr>,
          \<lparr>chunk_text = ''CC DDDD'', span_start = 12, span_end = 19\<rparr>]"
proof -
  have h: "(3::nat) < 9" by simp
  have "chunk [(1, ''AAAA BBBB ''), (2, ''CCCC DDDD'')] 9 3 =
     Inr [\<lparr>chunk_text = ''AAAA BBBB'', span_start = 0, span_end = 9\<rparr>,
          \<lparr>chunk_text = ''BBB CCCC '', span_start = 6, span_end = 15\<rparr>,
          \<lparr>chunk_text = ''CC DDDD'', span_start = 12, span_end = 19\<rparr>]"
    by code_simp
  then show ?thesis
    using h chunk_coverage [OF h, of "[(1, ''AAAA BBBB ''), (2, ''CCCC DDDD'')]"] by simp
qed

end
